theory Spec2Isabelle
  imports Complex_Main "HOL-Library.Sublist"
begin

section \<open>Python strings\<close>

text \<open>
  The module works on Python text strings.  They are modelled as \<open>string\<close>, that is as
  lists of 8-bit characters: the model covers the strings whose code points are below 256
  (ASCII and Latin-1).  The string methods the module calls are written out below with the
  behaviour of the Python built-ins on such strings.
\<close>

text \<open>\<^verbatim>\<open>s.replace(old, new)\<close>: every non-overlapping occurrence, scanning from the left.\<close>

fun str_replace :: "string \<Rightarrow> string \<Rightarrow> string \<Rightarrow> string" where
  "str_replace old new [] = (if old = [] then new else [])"
| "str_replace old new (c # cs) =
     (if old = [] then new @ c # str_replace old new cs
      else if prefix old (c # cs) then new @ str_replace old new (drop (length old - 1) cs)
      else c # str_replace old new cs)"

text \<open>\<^verbatim>\<open>s.lower()\<close> on code points below 256: A-Z and the Latin-1 capitals
  U+00C0..U+00DE (without the multiplication sign U+00D7) move up by 32.\<close>

definition uppers :: string where
  "uppers = ''ABCDEFGHIJKLMNOPQRSTUVWXYZ'' @
   [CHR 0xC0, CHR 0xC1, CHR 0xC2, CHR 0xC3, CHR 0xC4, CHR 0xC5, CHR 0xC6, CHR 0xC7,
    CHR 0xC8, CHR 0xC9, CHR 0xCA, CHR 0xCB, CHR 0xCC, CHR 0xCD, CHR 0xCE, CHR 0xCF,
    CHR 0xD0, CHR 0xD1, CHR 0xD2, CHR 0xD3, CHR 0xD4, CHR 0xD5, CHR 0xD6,
    CHR 0xD8, CHR 0xD9, CHR 0xDA, CHR 0xDB, CHR 0xDC, CHR 0xDD, CHR 0xDE]"

definition lowers :: string where
  "lowers = ''abcdefghijklmnopqrstuvwxyz'' @
   [CHR 0xE0, CHR 0xE1, CHR 0xE2, CHR 0xE3, CHR 0xE4, CHR 0xE5, CHR 0xE6, CHR 0xE7,
    CHR 0xE8, CHR 0xE9, CHR 0xEA, CHR 0xEB, CHR 0xEC, CHR 0xED, CHR 0xEE, CHR 0xEF,
    CHR 0xF0, CHR 0xF1, CHR 0xF2, CHR 0xF3, CHR 0xF4, CHR 0xF5, CHR 0xF6,
    CHR 0xF8, CHR 0xF9, CHR 0xFA, CHR 0xFB, CHR 0xFC, CHR 0xFD, CHR 0xFE]"

definition chr_lower :: "char \<Rightarrow> char" where
  "chr_lower c = (case map_of (zip uppers lowers) c of None \<Rightarrow> c | Some d \<Rightarrow> d)"

definition lower :: "string \<Rightarrow> string" where
  "lower s = map chr_lower s"

text \<open>\<^verbatim>\<open>s.partition(sep)\<close>: the text before the first occurrence of \<open>sep\<close>, the separator
  and the text after it; when \<open>sep\<close> does not occur, the whole string and two empty strings.\<close>

fun str_partition :: "string \<Rightarrow> string \<Rightarrow> string \<times> string \<times> string" where
  "str_partition sep [] = ([], [], [])"
| "str_partition sep (c # cs) =
     (if prefix sep (c # cs) then ([], sep, drop (length sep) (c # cs))
      else (case str_partition sep cs of (h, s, t) \<Rightarrow> (c # h, s, t)))"

text \<open>\<^verbatim>\<open>re.search('https?:', s)\<close>: the start of the leftmost match, or None.\<close>

fun re_search_https :: "string \<Rightarrow> nat option" where
  "re_search_https [] = None"
| "re_search_https (c # cs) =
     (if prefix ''http:'' (c # cs) \<or> prefix ''https:'' (c # cs) then Some 0
      else map_option Suc (re_search_https cs))"

text \<open>\<^verbatim>\<open>sep.join(xs)\<close>.\<close>

fun str_join :: "string \<Rightarrow> string list \<Rightarrow> string" where
  "str_join sep [] = []"
| "str_join sep [x] = x"
| "str_join sep (x # y # ys) = x @ sep @ str_join sep (y # ys)"

text \<open>\<^verbatim>\<open>s.split(c)\<close> for a separator of one character: never an empty list.\<close>

fun str_split :: "char \<Rightarrow> string \<Rightarrow> string list" where
  "str_split sep [] = [[]]"
| "str_split sep (c # cs) =
     (if c = sep then [] # str_split sep cs
      else (case str_split sep cs of
              [] \<Rightarrow> [[c]]
            | x # xs \<Rightarrow> (c # x) # xs))"

section \<open>Query sanitizers\<close>

text \<open>The double quote character, which the sanitizers strip.\<close>

definition dquote :: string where
  "dquote = [CHR 0x22]"

definition ddg_term :: "string \<Rightarrow> string" where
  "ddg_term t0 =
     (let t1 = str_replace dquote [] t0;
          t2 = (if lower t1 \<in> {''map'', ''news''} then dquote @ t1 @ dquote else t1)
      in if t2 \<in> {''OR'', ''AND'', ''NOT''} then lower t2 else t2)"

definition bing_term :: "string \<Rightarrow> string" where
  "bing_term t0 =
     (let t1 = str_replace dquote [] t0
      in if t1 \<in> {''OR'', ''AND'', ''NOT''} then lower t1 else t1)"

definition google_term :: "string \<Rightarrow> string" where
  "google_term t0 =
     (let t1 = str_replace dquote [] t0
      in if t1 \<in> {''OR'', ''AND'', ''NOT''} then lower t1 else t1)"

section \<open>Resolving tagged URLs\<close>

definition bing_url_processor :: "string \<Rightarrow> string" where
  "bing_url_processor url = url"

definition google_url_processor :: "string \<Rightarrow> string" where
  "google_url_processor url = url"

definition wayback_url_processor :: "string \<Rightarrow> string" where
  "wayback_url_processor url =
     (if prefix ''/'' url then
        (case re_search_https url of
           None \<Rightarrow> ''https://web.archive.org'' @ url
         | Some i \<Rightarrow> drop i url)
      else url)"

definition resolve_url :: "string \<Rightarrow> string" where
  "resolve_url url =
     (case str_partition '':'' url of (tag, sep, rest) \<Rightarrow>
        if tag = ''bing'' then bing_url_processor rest
        else if tag = ''wayback'' then wayback_url_processor rest
        else url)"

section \<open>Exceptions, the world and the injected capabilities\<close>

text \<open>The exceptions the module can meet.  \<open>TransportError\<close> stands for whatever the fetch
  capability raises (connection, timeout, HTTP status), \<open>ParseError\<close> for whatever the
  parser raises.\<close>

datatype error =
    IndexError | KeyError | TypeError | AttributeError | ValueError
  | UnicodeDecodeError | TransportError string | ParseError string

text \<open>
  The state outside the functions: the monotonic clock, the module-level
  \<^verbatim>\<open>last_visited = defaultdict(lambda: 0)\<close> (a total function, 0 where nothing was stored), the
  durations handed to \<^verbatim>\<open>time.sleep\<close>, the requests the network has seen (URL and start time,
  written by the fetch capability, never by this module), the files written through
  \<open>dump_raw\<close> and the lines given to the logger (one list of arguments per call).  Time is
  exact: a rational number of seconds.
\<close>

record world =
  clock :: rat
  last_visited :: "string \<Rightarrow> rat"
  slept :: "rat list"
  requests :: "(string \<times> rat) list"
  files :: "string \<rightharpoonup> string"
  logged :: "string list list"

type_synonym 'a io = "world \<Rightarrow> (error + 'a) \<times> world"

text \<open>\<^verbatim>\<open>time.sleep(d)\<close> lets \<open>d\<close> seconds pass.\<close>

definition sleep :: "rat \<Rightarrow> world \<Rightarrow> world" where
  "sleep d w = w\<lparr>clock := clock w + d, slept := slept w @ [d]\<rparr>"

text \<open>\<^verbatim>\<open>log(*args)\<close>, where \<open>log\<close> is \<^verbatim>\<open>prints\<close> unless the caller gives another sink:
  the arguments of the call are recorded; it never raises.\<close>

definition prints :: "string list \<Rightarrow> world \<Rightarrow> world" where
  "prints args w = w\<lparr>logged := logged w @ [args]\<rparr>"

text \<open>A browser: \<^verbatim>\<open>br.open_novisit(url, timeout=timeout).read()\<close> returns the bytes of the
  response or raises, and takes time.  Where a function says \<^verbatim>\<open>br = br or browser()\<close>, the
  browser of the model is the one in use after that line.\<close>

type_synonym fetcher = "string \<Rightarrow> rat \<Rightarrow> string io"

record browser =
  open_novisit :: fetcher

text \<open>Values decoded from JSON, as \<^verbatim>\<open>json.loads\<close> returns them: None, bool, int, float, str,
  list and dict (a dict as an association list, read with \<open>map_of\<close>).  A float is given by
  its exact value; the floats without one (NaN, the infinities) are left out.\<close>

datatype json =
    JNull | JBool bool | JInt int | JFloat rat | JStr string
  | JArr "json list" | JObj "(string \<times> json) list"

text \<open>
  The functions of the Python standard library and of calibre that the module calls but
  does not define are parameters of the model.  Byte strings and text strings are both
  \<open>string\<close> here, and the keys of the dictionary that \<open>parse_qs\<close> returns are compared by
  content (as Python 2, which the module is written for, compares the text \<^verbatim>\<open>'uddg'\<close> with a
  byte string).  \<open>chr\<close> may raise: Python 2 refuses a code point above 255.
\<close>

record pylib =
  xml_to_unicode :: "string \<Rightarrow> string"
  utf8_encode :: "string \<Rightarrow> string"
  utf8_decode :: "string \<Rightarrow> error + string"
  quote_plus :: "string \<Rightarrow> string"
  unquote :: "string \<Rightarrow> string"
  parse_qs :: "string \<Rightarrow> (string \<rightharpoonup> string list)"
  chr :: "nat \<Rightarrow> error + string"
  repr :: "string \<Rightarrow> string"
  pformat :: "json \<Rightarrow> string"
  json_loads :: "string \<Rightarrow> error + json"

text \<open>
  A parsed HTML document is seen through lxml: \<open>parse_html\<close> builds it, \<open>xpath\<close> evaluates
  an XPath expression at a node to a list of nodes in document order, \<open>xpath_text\<close> does so
  for an expression that selects text, \<open>get\<close> reads an attribute (None when it is absent)
  and \<open>etree_tostring\<close> is
  \<^verbatim>\<open>etree.tostring(elem, encoding='unicode', method='text', with_tail=False)\<close>.
\<close>

record 'n dom =
  parse_html :: "string \<Rightarrow> error + 'n"
  xpath :: "'n \<Rightarrow> string \<Rightarrow> 'n list"
  xpath_text :: "'n \<Rightarrow> string \<Rightarrow> string list"
  get :: "'n \<Rightarrow> string \<Rightarrow> string option"
  etree_tostring :: "'n \<Rightarrow> string"

datatype result =
  Result (result_url: "string option") (result_title: string) (result_cached_url: "string option")

definition tostring :: "'n dom \<Rightarrow> 'n \<Rightarrow> string" where
  "tostring D elem = etree_tostring D elem"

section \<open>The throttled fetch\<close>

text \<open>Lines 70 to 74 of \<open>query\<close>: read the last visit of \<open>key\<close> and sleep.\<close>

definition throttle :: "string \<Rightarrow> rat \<Rightarrow> world \<Rightarrow> world" where
  "throttle key limit w =
     (let lv = last_visited w key;
          delta = clock w - lv
      in if delta < limit \<and> delta > 0 then sleep delta w else w)"

text \<open>Lines 76 to 80: the body of the \<^verbatim>\<open>try\<close>.\<close>

definition fetch_raw ::
  "pylib \<Rightarrow> browser \<Rightarrow> string \<Rightarrow> rat \<Rightarrow> fetcher option \<Rightarrow> string io" where
  "fetch_raw L br url timeout simple_scraper w =
     (case simple_scraper of
        None \<Rightarrow>
          (case open_novisit br url timeout w of
             (Inl e, w') \<Rightarrow> (Inl e, w')
           | (Inr raw, w') \<Rightarrow> (Inr (xml_to_unicode L raw), w'))
      | Some scraper \<Rightarrow> scraper url timeout w)"

text \<open>Lines 82 and 83: the \<^verbatim>\<open>finally\<close> clause.\<close>

definition record_visit :: "string \<Rightarrow> world \<Rightarrow> world" where
  "record_visit key w = w\<lparr>last_visited := (last_visited w)(key := clock w)\<rparr>"

text \<open>Lines 84 to 89: dump (the write is taken to succeed), hand the raw text over,
  parse.\<close>

definition deliver ::
  "string option \<Rightarrow> (string \<Rightarrow> world \<Rightarrow> world) option \<Rightarrow> (string \<Rightarrow> error + 'd) \<Rightarrow>
   string \<Rightarrow> 'd io" where
  "deliver dump_raw save_raw parser raw w =
     (let w1 = (case dump_raw of None \<Rightarrow> w | Some path \<Rightarrow> w\<lparr>files := (files w)(path \<mapsto> raw)\<rparr>);
          w2 = (case save_raw of None \<Rightarrow> w1 | Some f \<Rightarrow> f raw w1)
      in (parser raw, w2))"

definition query ::
  "pylib \<Rightarrow> browser \<Rightarrow> string \<Rightarrow> string \<Rightarrow> string option \<Rightarrow> rat \<Rightarrow> (string \<Rightarrow> error + 'd) \<Rightarrow>
   rat \<Rightarrow> (string \<Rightarrow> world \<Rightarrow> world) option \<Rightarrow> fetcher option \<Rightarrow> 'd io" where
  "query L br url key dump_raw limit parser timeout save_raw simple_scraper w =
     (case fetch_raw L br url timeout simple_scraper (throttle key limit w) of
        (Inl e, w') \<Rightarrow> (Inl e, record_visit key w')
      | (Inr raw, w') \<Rightarrow> deliver dump_raw save_raw parser raw (record_visit key w'))"

definition quote_term :: "pylib \<Rightarrow> string \<Rightarrow> string" where
  "quote_term L x = quote_plus L (utf8_encode L x)"

section \<open>DDG and the Wayback machine\<close>

definition ddg_href :: "pylib \<Rightarrow> string \<Rightarrow> error + string" where
  "ddg_href L url =
     (if prefix ''/'' url then
        (case str_partition ''?'' url of (h, s, q) \<Rightarrow>
           (case parse_qs L (utf8_encode L q) ''uddg'' of
              None \<Rightarrow> Inl KeyError
            | Some [] \<Rightarrow> Inl IndexError
            | Some (v # vs) \<Rightarrow> utf8_decode L v))
      else Inr url)"

text \<open>Python's truth value of a decoded JSON value.\<close>

fun truthy :: "json \<Rightarrow> bool" where
  "truthy JNull = False"
| "truthy (JBool b) = b"
| "truthy (JInt i) = (i \<noteq> 0)"
| "truthy (JFloat r) = (r \<noteq> 0)"
| "truthy (JStr s) = (s \<noteq> [])"
| "truthy (JArr xs) = (xs \<noteq> [])"
| "truthy (JObj kvs) = (kvs \<noteq> [])"

text \<open>\<^verbatim>\<open>data[k]\<close> for a text key: KeyError on a dict without the key, TypeError on
  anything that is not a dict.\<close>

fun getitem :: "json \<Rightarrow> string \<Rightarrow> error + json" where
  "getitem (JObj kvs) k = (case map_of kvs k of None \<Rightarrow> Inl KeyError | Some v \<Rightarrow> Inr v)"
| "getitem v k = Inl TypeError"

text \<open>\<^verbatim>\<open>v.replace('http:', 'https:')\<close>: only text has the method.\<close>

fun replace_http :: "json \<Rightarrow> error + string" where
  "replace_http (JStr s) = Inr (str_replace ''http:'' ''https:'' s)"
| "replace_http v = Inl AttributeError"

text \<open>The body of the \<^verbatim>\<open>try\<close> in \<open>wayback_machine_cached_url\<close>: it raises (\<open>Inl\<close>), returns
  a URL (\<open>Inr (Some u)\<close>) or falls through (\<open>Inr None\<close>).\<close>

definition closest_snapshot :: "json \<Rightarrow> error + string option" where
  "closest_snapshot data =
     (case getitem data ''archived_snapshots'' of
        Inl e \<Rightarrow> Inl e
      | Inr snapshots \<Rightarrow>
          (case getitem snapshots ''closest'' of
             Inl e \<Rightarrow> Inl e
           | Inr closest \<Rightarrow>
               (case getitem closest ''available'' of
                  Inl e \<Rightarrow> Inl e
                | Inr available \<Rightarrow>
                    if truthy available then
                      (case getitem closest ''url'' of
                         Inl e \<Rightarrow> Inl e
                       | Inr u \<Rightarrow> map_sum id Some (replace_http u))
                    else Inr None)))"

text \<open>The call of \<open>query\<close> in \<open>wayback_machine_cached_url\<close>.\<close>

definition wayback_query :: "pylib \<Rightarrow> browser \<Rightarrow> string \<Rightarrow> rat \<Rightarrow> json io" where
  "wayback_query L br url timeout =
     query L br (''https://archive.org/wayback/available?url='' @ quote_term L url) ''wayback''
       None (1 / 4) (json_loads L) timeout None None"

definition wayback_machine_cached_url ::
  "pylib \<Rightarrow> browser \<Rightarrow> string \<Rightarrow> rat \<Rightarrow> string option io" where
  "wayback_machine_cached_url L br url timeout w =
     (case wayback_query L br url timeout w of
        (Inl e, w') \<Rightarrow> (Inl e, w')
      | (Inr data, w') \<Rightarrow>
          (case closest_snapshot data of
             Inr (Some u) \<Rightarrow> (Inr (Some u), w')
           | Inr None \<Rightarrow>
               (Inr None, prints [''Response from wayback machine:'', pformat L data] w')
           | Inl e \<Rightarrow>
               (Inr None, prints [''Response from wayback machine:'', pformat L data] w')))"

text \<open>The loop of \<open>ddg_search\<close> over the result anchors.\<close>

fun ddg_results :: "pylib \<Rightarrow> 'n dom \<Rightarrow> 'n list \<Rightarrow> result list \<Rightarrow> error + result list" where
  "ddg_results L D [] ans = Inr ans"
| "ddg_results L D (a # as) ans =
     (case get D a ''href'' of
        None \<Rightarrow> Inl AttributeError
      | Some href \<Rightarrow>
          (case ddg_href L href of
             Inl e \<Rightarrow> Inl e
           | Inr url \<Rightarrow> ddg_results L D as (ans @ [Result (Some url) (tostring D a) None])))"

text \<open>Lines 146 to 151 of \<open>ddg_search\<close>: the query text and the URL.\<close>

definition ddg_q :: "pylib \<Rightarrow> string list \<Rightarrow> string option \<Rightarrow> string" where
  "ddg_q L terms site =
     (let terms1 = map (\<lambda>t. quote_term L (ddg_term t)) terms;
          terms2 = (case site of None \<Rightarrow> terms1
                    | Some s \<Rightarrow> terms1 @ [quote_term L (''site:'' @ s)])
      in str_join ''+'' terms2)"

definition ddg_url :: "pylib \<Rightarrow> string list \<Rightarrow> string option \<Rightarrow> bool \<Rightarrow> string" where
  "ddg_url L terms site safe_search =
     ''https://duckduckgo.com/html/?q='' @ ddg_q L terms site @ ''&kp='' @
     (if safe_search then ''1'' else ''-1'')"

text \<open>Lines 155 to 158: the extraction from the parsed page.\<close>

definition ddg_extract :: "pylib \<Rightarrow> 'n dom \<Rightarrow> 'n \<Rightarrow> string \<Rightarrow> (result list \<times> string) io" where
  \<open>ddg_extract L D doc url w =
     (case ddg_results L D
             (xpath D doc
                ''//*[@class="results"]//*[@class="result__title"]/a[@href and @class="result__a"]'')
             [] of
        Inl e \<Rightarrow> (Inl e, w)
      | Inr ans \<Rightarrow> (Inr (ans, url), w))\<close>

definition ddg_search ::
  "pylib \<Rightarrow> 'n dom \<Rightarrow> browser \<Rightarrow> string list \<Rightarrow> string option \<Rightarrow> bool \<Rightarrow> string option \<Rightarrow> rat \<Rightarrow>
   (result list \<times> string) io" where
  "ddg_search L D br terms site safe_search dump_raw timeout w =
     (let url = ddg_url L terms site safe_search;
          w1 = prints [''Making ddg query: '' @ url] w
      in case query L br url ''ddg'' dump_raw 1 (parse_html D) timeout None None w1 of
           (Inl e, w2) \<Rightarrow> (Inl e, w2)
         | (Inr doc, w2) \<Rightarrow> ddg_extract L D doc url w2)"

section \<open>Bing\<close>

text \<open>The loop of \<open>bing_search\<close> over the result items (lines 205 to 217).  The two
  tokens that the source unpacks into \<open>d\<close> and \<open>w\<close> are \<open>d\<close> and \<open>x\<close> here, \<open>w\<close> being the
  world.\<close>

fun bing_results ::
  "pylib \<Rightarrow> 'n dom \<Rightarrow> string \<Rightarrow> 'n list \<Rightarrow> result list \<Rightarrow> result list io" where
  "bing_results L D q [] ans w = (Inr ans, w)"
| \<open>bing_results L D q (li # lis) ans w =
     (case (if xpath D li ''descendant::h2/a[@href]'' \<noteq> []
            then xpath D li ''descendant::h2/a[@href]''
            else xpath D li ''descendant::div[@class="b_algoheader"]/a[@href]'') of
        [] \<Rightarrow> (Inl IndexError, w)
      | a # as \<Rightarrow>
          (let title = tostring D a
           in case xpath D li ''descendant::div[@class="b_attribution" and @u]'' of
                [] \<Rightarrow>
                  bing_results L D q lis ans
                    (prints [''Ignoring '' @ repr L title @ '' as it has no cached page''] w)
              | attribution # divs \<Rightarrow>
                  (case get D attribution ''u'' of
                     None \<Rightarrow> (Inl AttributeError, w)
                   | Some u \<Rightarrow>
                       (let parts = str_split (CHR ''|'') u
                        in case drop (length parts - 2) parts of
                             [d, x] \<Rightarrow>
                               bing_results L D q lis
                                 (ans @ [Result (get D a ''href'') title
                                    (Some (''https://cc.bingj.com/cache.aspx?q='' @ q @ ''&d='' @ d @
                                           ''&mkt=en-US&setlang=en-US&w='' @ x))]) w
                           | _ \<Rightarrow> (Inl ValueError, w)))))\<close>

text \<open>Lines 187 to 191 of \<open>bing_search\<close>: the query text and the URL.\<close>

definition bing_q :: "pylib \<Rightarrow> string list \<Rightarrow> string option \<Rightarrow> string" where
  "bing_q L terms site =
     (let terms1 = map (\<lambda>t. quote_term L (bing_term t)) terms;
          terms2 = (case site of None \<Rightarrow> terms1
                    | Some s \<Rightarrow> terms1 @ [quote_term L (''site:'' @ s)])
      in str_join ''+'' terms2)"

text \<open>Lines 204 to 221: the extraction from the parsed page.\<close>

definition bing_extract ::
  "pylib \<Rightarrow> 'n dom \<Rightarrow> string \<Rightarrow> 'n \<Rightarrow> string \<Rightarrow> (result list \<times> string) io" where
  \<open>bing_extract L D q doc url w =
     (case bing_results L D q (xpath D doc ''//*[@id="b_results"]/li[@class="b_algo"]'') [] w of
        (Inl e, w1) \<Rightarrow> (Inl e, w1)
      | (Inr ans, w1) \<Rightarrow>
          (if ans = [] then
             (Inr (ans, url),
              prints [''Failed to find any results on results page, with title:'',
                      str_join '' '' (xpath_text D doc ''//title/text()'')] w1)
           else (Inr (ans, url), w1)))\<close>

text \<open>
  \<open>bing_search\<close>.  The browser is the one the request goes out with, that is after the
  function has replaced its user agent header; \<open>safe_search\<close> is not used by the function.
\<close>

definition bing_search ::
  "pylib \<Rightarrow> 'n dom \<Rightarrow> browser \<Rightarrow> string list \<Rightarrow> string option \<Rightarrow> string option \<Rightarrow> rat \<Rightarrow>
   (result list \<times> string) io" where
  "bing_search L D br terms site dump_raw timeout w =
     (let q = bing_q L terms site;
          url = ''https://www.bing.com/search?q='' @ q;
          w1 = prints [''Making bing query: '' @ url] w
      in case query L br url ''bing'' dump_raw 1 (parse_html D) timeout None None w1 of
           (Inl e, w2) \<Rightarrow> (Inl e, w2)
         | (Inr doc, w2) \<Rightarrow> bing_extract L D q doc url w2)"

section \<open>Google\<close>

text \<open>The four characters \<^verbatim>\<open>\x22\<close> (a backslash, then \<open>x22\<close>) that frame an escaped cache URL
  in the raw page, the fixed head of a cache URL, and the two backslashes and \<open>u\<close> that start
  a doubly escaped character.\<close>

definition bs_x22 :: string where
  "bs_x22 = CHR 0x5C # ''x22''"

definition cache_head :: string where
  "cache_head = ''https://webcache.googleusercontent.com/''"

definition bs_bs_u :: string where
  "bs_bs_u = [CHR 0x5C, CHR 0x5C, CHR ''u'']"

text \<open>
  The lazy \<^verbatim>\<open>.+?\<close> of \<open>pat\<close> and the closing \<^verbatim>\<open>\x22\<close>: at least one character, none of them a
  newline, as few as possible.  The result is the text matched by \<^verbatim>\<open>.+?\<close> and the number
  of characters consumed, the closing \<^verbatim>\<open>\x22\<close> included.
\<close>

fun lazy_to_x22 :: "string \<Rightarrow> (string \<times> nat) option" where
  "lazy_to_x22 [] = None"
| "lazy_to_x22 (c # cs) =
     (if c = CHR 0x0A then None
      else if prefix bs_x22 cs then Some ([c], Suc (length bs_x22))
      else (case lazy_to_x22 cs of
              None \<Rightarrow> None
            | Some (body, n) \<Rightarrow> Some (c # body, Suc n)))"

text \<open>\<^verbatim>\<open>[m.group(1) for m in pat.finditer(raw)]\<close> for
  \<^verbatim>\<open>pat = re.compile(r'\\x22(https://webcache\.googleusercontent\.com/.+?)\\x22')\<close>:
  the matches from left to right, each search starting where the previous match ended.\<close>

fun pat_finditer :: "string \<Rightarrow> string list" where
  "pat_finditer [] = []"
| "pat_finditer (c # cs) =
     (if prefix (bs_x22 @ cache_head) (c # cs) then
        (case lazy_to_x22 (drop (length (bs_x22 @ cache_head) - 1) cs) of
           Some (body, n) \<Rightarrow>
             (cache_head @ body) # pat_finditer (drop (length (bs_x22 @ cache_head) - 1 + n) cs)
         | None \<Rightarrow> pat_finditer cs)
      else pat_finditer cs)"

definition is_hex :: "char \<Rightarrow> bool" where
  "is_hex c = (c \<in> set ''0123456789abcdefABCDEF'')"

definition hex_digit :: "char \<Rightarrow> nat" where
  "hex_digit c =
     (case map_of (zip ''0123456789abcdefABCDEF''
                       [0, 1, 2, 3, 4, 5, 6, 7, 8, 9, 10, 11, 12, 13, 14, 15, 10, 11, 12, 13, 14, 15]) c of
        None \<Rightarrow> 0
      | Some d \<Rightarrow> d)"

text \<open>\<^verbatim>\<open>int(s, 16)\<close> on a string of hexadecimal digits.\<close>

definition hex_value :: "string \<Rightarrow> nat" where
  "hex_value s = foldl (\<lambda>a c. 16 * a + hex_digit c) 0 s"

text \<open>\<^verbatim>\<open>upat.sub(urepl, s)\<close> for \<^verbatim>\<open>upat = re.compile(r'\\\\u([0-9a-fA-F]{4})')\<close> and
  \<^verbatim>\<open>urepl(m) = chr(int(m.group(1), 16))\<close>.\<close>

fun upat_sub :: "pylib \<Rightarrow> string \<Rightarrow> error + string" where
  "upat_sub L [] = Inr []"
| "upat_sub L (c # cs) =
     (if prefix bs_bs_u (c # cs) \<and> length (take 4 (drop 2 cs)) = 4 \<and>
         list_all is_hex (take 4 (drop 2 cs)) then
        (case chr L (hex_value (take 4 (drop 2 cs))) of
           Inl e \<Rightarrow> Inl e
         | Inr x \<Rightarrow>
             (case upat_sub L (drop 6 cs) of
                Inl e \<Rightarrow> Inl e
              | Inr r \<Rightarrow> Inr (x @ r)))
      else (case upat_sub L cs of
              Inl e \<Rightarrow> Inl e
            | Inr r \<Rightarrow> Inr (c # r)))"

text \<open>\<^verbatim>\<open>cache_pat.search(s)\<close> for \<^verbatim>\<open>cache_pat = re.compile('cache:([^:]+):(.+)')\<close>: the two
  groups of the leftmost match, or None.\<close>

fun cache_pat_search :: "string \<Rightarrow> (string \<times> string) option" where
  "cache_pat_search [] = None"
| "cache_pat_search (c # cs) =
     (if prefix ''cache:'' (c # cs) then
        (let r = drop 5 cs;
             g1 = takeWhile (\<lambda>x. x \<noteq> CHR '':'') r;
             r2 = dropWhile (\<lambda>x. x \<noteq> CHR '':'') r;
             g2 = takeWhile (\<lambda>x. x \<noteq> CHR 0x0A) (drop 1 r2)
         in if g1 \<noteq> [] \<and> r2 \<noteq> [] \<and> g2 \<noteq> [] then Some (g1, g2) else cache_pat_search cs)
      else cache_pat_search cs)"

text \<open>The loop of \<open>google_extract_cache_urls\<close> over the matches, with \<open>seen\<close> and \<open>ans\<close>.\<close>

fun cache_urls_loop ::
  "pylib \<Rightarrow> string list \<Rightarrow> string set \<Rightarrow> (string \<rightharpoonup> string) \<Rightarrow> error + (string \<rightharpoonup> string)" where
  "cache_urls_loop L [] seen ans = Inr ans"
| "cache_urls_loop L (g # gs) seen ans =
     (case upat_sub L g of
        Inl e \<Rightarrow> Inl e
      | Inr cache_url \<Rightarrow>
          (case cache_pat_search cache_url of
             None \<Rightarrow> Inl AttributeError
           | Some (cache_id, src_url) \<Rightarrow>
               if cache_id \<in> seen then cache_urls_loop L gs seen ans
               else (case str_split (CHR ''+'') src_url of
                       [] \<Rightarrow> Inl IndexError
                     | s # ss \<Rightarrow>
                         cache_urls_loop L gs (insert cache_id seen)
                           (ans(unquote L s \<mapsto> cache_url)))))"

text \<open>\<open>google_extract_cache_urls\<close> on the raw text of the page (the function first decodes
  a byte string; the raw text handed over by \<open>query\<close> is text already).\<close>

definition google_extract_cache_urls :: "pylib \<Rightarrow> string \<Rightarrow> error + (string \<rightharpoonup> string)" where
  "google_extract_cache_urls L raw = cache_urls_loop L (pat_finditer raw) {} Map.empty"

text \<open>The loop of \<open>google_parse_results\<close> over the result blocks (lines 276 to 293).\<close>

fun google_results ::
  "pylib \<Rightarrow> 'n dom \<Rightarrow> (string \<rightharpoonup> string) \<Rightarrow> 'n list \<Rightarrow> result list \<Rightarrow> result list io" where
  "google_results L D cache_url_map [] ans w = (Inr ans, w)"
| \<open>google_results L D cache_url_map (block # blocks) ans w =
     (case xpath D block ''descendant::a[@href]'' of
        [] \<Rightarrow>
          google_results L D cache_url_map blocks ans
            (prints [''Ignoring div with no main result link''] w)
      | a # as \<Rightarrow>
          (let title = tostring D a;
               src_url = get D a ''href''
           in case (case src_url of None \<Rightarrow> None | Some s \<Rightarrow> cache_url_map s) of
                Some cached_url \<Rightarrow>
                  google_results L D cache_url_map blocks
                    (ans @ [Result (get D a ''href'') title (Some cached_url)]) w
              | None \<Rightarrow>
                  (case xpath D block ''descendant::*[@role="menuitem"]//a[@class="fl"]'' of
                     [] \<Rightarrow>
                       google_results L D cache_url_map blocks ans
                         (prints [''Ignoring '' @ repr L title @ '' as it has no cached page''] w)
                   | c # cs \<Rightarrow>
                       google_results L D cache_url_map blocks
                         (ans @ [Result (get D a ''href'') title (get D c ''href'')]) w)))\<close>

definition google_parse_results :: "pylib \<Rightarrow> 'n dom \<Rightarrow> 'n \<Rightarrow> string \<Rightarrow> result list io" where
  \<open>google_parse_results L D doc raw w =
     (case google_extract_cache_urls L raw of
        Inl e \<Rightarrow> (Inl e, w)
      | Inr cache_url_map \<Rightarrow>
          (case google_results L D cache_url_map
                  (xpath D doc ''//*[@id="search"]//*[@id="rso"]//div[descendant::h3]'') [] w of
             (Inl e, w1) \<Rightarrow> (Inl e, w1)
           | (Inr ans, w1) \<Rightarrow>
               (if ans = [] then
                  (Inr ans,
                   prints [''Failed to find any results on results page, with title:'',
                           str_join '' '' (xpath_text D doc ''//title/text()'')] w1)
                else (Inr ans, w1))))\<close>

section \<open>What the specification says, in its own words\<close>

subsection \<open>Sanitized terms and tagged URLs\<close>

text \<open>A term "with all double quotes removed".\<close>

definition strip_quotes :: "string \<Rightarrow> string" where
  "strip_quotes t = filter (\<lambda>c. c \<noteq> CHR 0x22) t"

text \<open>"The prefix before the first colon" of a tagged URL.\<close>

definition tag_of :: "string \<Rightarrow> string" where
  "tag_of url = takeWhile (\<lambda>c. c \<noteq> CHR '':'') url"

text \<open>An embedded absolute URL starts at position \<open>i\<close>: \<open>http:\<close> or \<open>https:\<close> is read there.\<close>

definition embedded_at :: "nat \<Rightarrow> string \<Rightarrow> bool" where
  "embedded_at i s = (prefix ''http:'' (drop i s) \<or> prefix ''https:'' (drop i s))"

subsection \<open>The Wayback lookup\<close>

text \<open>The member \<open>k\<close> of a JSON object; nothing for a missing key and for a value that is
  not an object.\<close>

fun field_of :: "string \<Rightarrow> json \<Rightarrow> json option" where
  "field_of k (JObj kvs) = map_of kvs k"
| "field_of k v = None"

text \<open>"The response contains archived_snapshots.closest with available set to true."\<close>

definition marked_available :: "json \<Rightarrow> bool" where
  "marked_available data =
     (Option.bind (Option.bind (field_of ''archived_snapshots'' data) (field_of ''closest''))
        (field_of ''available'') = Some (JBool True))"

text \<open>The snapshot a response offers: \<open>archived_snapshots.closest\<close> is an object with a
  member \<open>available\<close> that Python counts as true and a member \<open>url\<close> that is text.\<close>

definition snapshot_of :: "json \<Rightarrow> string option" where
  "snapshot_of data =
     (case Option.bind (field_of ''archived_snapshots'' data) (field_of ''closest'') of
        None \<Rightarrow> None
      | Some closest \<Rightarrow>
          (case field_of ''available'' closest of
             None \<Rightarrow> None
           | Some a \<Rightarrow>
               if truthy a then
                 (case field_of ''url'' closest of
                    Some (JStr u) \<Rightarrow> Some u
                  | _ \<Rightarrow> None)
               else None))"

text \<open>The text \<open>sub\<close> occurs somewhere in \<open>s\<close>.\<close>

fun occurs_in :: "string \<Rightarrow> string \<Rightarrow> bool" where
  "occurs_in sub [] = (sub = [])"
| "occurs_in sub (c # cs) = (prefix sub (c # cs) \<or> occurs_in sub cs)"

subsection \<open>The DDG redirect\<close>


subsection \<open>The cache URLs\<close>






section \<open>Fixtures for the examples\<close>

text \<open>A fetch capability that notes the request and its start time, takes \<open>duration\<close>
  seconds and ends with \<open>outcome\<close>.\<close>

definition probe :: "rat \<Rightarrow> error + string \<Rightarrow> fetcher" where
  "probe duration outcome url timeout w =
     (outcome, w\<lparr>requests := requests w @ [(url, clock w)], clock := clock w + duration\<rparr>)"

text \<open>A fresh process at clock 100: nothing visited, nothing logged.\<close>

definition world0 :: world where
  "world0 = \<lparr>clock = 100, last_visited = (\<lambda>key. 0), slept = [], requests = [],
              files = Map.empty, logged = []\<rparr>"

text \<open>The caller lets \<open>d\<close> seconds pass between two calls.\<close>

definition idle :: "rat \<Rightarrow> world \<Rightarrow> world" where
  "idle d w = w\<lparr>clock := clock w + d\<rparr>"

text \<open>
  A library for the examples.  On ASCII text the UTF-8 codecs and the decoder of the raw
  response are the identity; \<open>quote_plus\<close> is the identity on unreserved characters
  (letters, digits, \<open>.\<close>, \<open>-\<close> and \<open>_\<close>), and \<open>unquote\<close> on text without \<open>%\<close>: the examples
  hand them no other text.  \<open>chr\<close> gives the character of a code point below 256;
  \<open>repr\<close> puts text without quotes and escapes between single quotes.  Its \<open>parse_qs\<close>
  finds no parameter and its JSON decoder and pretty printer know no text: the libraries
  below add them by tables.
\<close>

definition plain_lib :: pylib where
  "plain_lib = \<lparr>xml_to_unicode = id, utf8_encode = id, utf8_decode = Inr, quote_plus = id,
     unquote = id, parse_qs = (\<lambda>q. Map.empty),
     chr = (\<lambda>n. if n < 256 then Inr [char_of n] else Inl ValueError),
     repr = (\<lambda>s. [CHR 0x27] @ s @ [CHR 0x27]),
     pformat = (\<lambda>v. []), json_loads = (\<lambda>raw. Inl (ParseError raw))\<rparr>"

subsection \<open>Replies of the availability endpoint\<close>

text \<open>The reply of the availability endpoint that names \<open>u\<close> as the closest snapshot, with
  \<open>available\<close> as its availability mark.\<close>

definition wayback_reply :: "json \<Rightarrow> string \<Rightarrow> json" where
  "wayback_reply available u =
     JObj [(''archived_snapshots'',
            JObj [(''closest'', JObj [(''available'', available), (''url'', JStr u)])])]"

text \<open>A library whose JSON decoder knows the raw texts of a table, and whose pretty printer
  prints a value of the table as its raw text.\<close>

definition table_lib :: "(string \<times> json) list \<Rightarrow> pylib" where
  "table_lib tbl = plain_lib
     \<lparr>pformat := (\<lambda>v. case map_of (map (\<lambda>(raw, x). (x, raw)) tbl) v of
                        None \<Rightarrow> [] | Some raw \<Rightarrow> raw),
      json_loads := (\<lambda>raw. case map_of tbl raw of
                        None \<Rightarrow> Inl (ParseError raw) | Some v \<Rightarrow> Inr v)\<rparr>"

definition raw_available :: string where
  \<open>raw_available =
     ''{"archived_snapshots":{"closest":{"available":true,"url":"http://web.archive.org/abc"}}}''\<close>

definition raw_unavailable :: string where
  \<open>raw_unavailable =
     ''{"archived_snapshots":{"closest":{"available":false,"url":"http://web.archive.org/abc"}}}''\<close>

definition raw_available_text :: string where
  \<open>raw_available_text =
     ''{"archived_snapshots":{"closest":{"available":"false","url":"http://web.archive.org/abc"}}}''\<close>

definition raw_embedded :: string where
  \<open>raw_embedded =
     ''{"archived_snapshots":{"closest":{"available":true,"url":"http://web.archive.org/web/2020/http://example.com"}}}''\<close>

definition wayback_lib :: pylib where
  "wayback_lib = table_lib
     [(raw_available, wayback_reply (JBool True) ''http://web.archive.org/abc''),
      (raw_unavailable, wayback_reply (JBool False) ''http://web.archive.org/abc''),
      (raw_available_text, wayback_reply (JStr ''false'') ''http://web.archive.org/abc''),
      (raw_embedded,
       wayback_reply (JBool True) ''http://web.archive.org/web/2020/http://example.com'')]"

subsection \<open>Parsed pages given by tables\<close>

text \<open>
  A parsed page whose nodes are numbers, node 0 being the document: what each XPath
  expression selects at each node (nothing where the table has no entry), the text an
  expression selects, the attributes of each node and the rendered text of each node.
\<close>

definition table_dom ::
  "((nat \<times> string) \<times> nat list) list \<Rightarrow> ((nat \<times> string) \<times> string list) list \<Rightarrow>
   ((nat \<times> string) \<times> string) list \<Rightarrow> (nat \<times> string) list \<Rightarrow> nat dom" where
  "table_dom selects texts attrs rendered =
     \<lparr>parse_html = (\<lambda>raw. Inr 0),
      xpath = (\<lambda>n q. case map_of selects (n, q) of None \<Rightarrow> [] | Some ns \<Rightarrow> ns),
      xpath_text = (\<lambda>n q. case map_of texts (n, q) of None \<Rightarrow> [] | Some ts \<Rightarrow> ts),
      get = (\<lambda>n k. map_of attrs (n, k)),
      etree_tostring = (\<lambda>n. case map_of rendered n of None \<Rightarrow> [] | Some t \<Rightarrow> t)\<rparr>"



text \<open>A page without any result element: the block page of a search engine.\<close>

definition blocked_page :: "nat dom" where
  "blocked_page = table_dom [] [((0, ''//title/text()''), [''Are you a robot?''])] [] []"

text \<open>A Bing page with three result items; the second has no title link, under neither
  layout.\<close>

definition bing_page :: "nat dom" where
  \<open>bing_page = table_dom
     [((0, ''//*[@id="b_results"]/li[@class="b_algo"]''), [10, 20, 30]),
      ((10, ''descendant::h2/a[@href]''), [11]),
      ((10, ''descendant::div[@class="b_attribution" and @u]''), [12]),
      ((20, ''descendant::div[@class="b_attribution" and @u]''), [22]),
      ((30, ''descendant::h2/a[@href]''), [31]),
      ((30, ''descendant::div[@class="b_attribution" and @u]''), [32])]
     [((0, ''//title/text()''), [''heroes - Bing''])]
     [((11, ''href''), ''https://example.com/a''), ((12, ''u''), ''0|5058|4871|x''),
      ((22, ''u''), ''0|5059|4872|y''),
      ((31, ''href''), ''https://example.com/c''), ((32, ''u''), ''0|5060|4873|z'')]
     [(11, ''A''), (31, ''C'')]\<close>

subsection \<open>A raw Google page\<close>



section \<open>Facts about the model\<close>

lemma str_replace_dquote: "str_replace dquote [] t = strip_quotes t"
  by (induction t) (simp_all add: dquote_def strip_quotes_def)

lemma lower_ops:
  "lower ''OR'' = ''or''" "lower ''AND'' = ''and''" "lower ''NOT'' = ''not''"
  by (simp_all add: lower_def chr_lower_def uppers_def lowers_def)

lemma str_partition_tag: "fst (str_partition '':'' url) = tag_of url"
  by (induction url) (auto simp: tag_of_def split: prod.splits)

lemma str_partition_wayback:
  "str_partition '':'' (''wayback:'' @ rest) = (''wayback'', '':'', rest)"
  by simp

lemma re_search_https_None:
  "re_search_https s = None \<longleftrightarrow> (\<forall>i. \<not> embedded_at i s)"
proof (induction s)
  case Nil
  show ?case by (simp add: embedded_at_def)
next
  case (Cons c cs)
  show ?case
  proof (cases "prefix ''http:'' (c # cs) \<or> prefix ''https:'' (c # cs)")
    case True
    then have "embedded_at 0 (c # cs)" by (simp add: embedded_at_def)
    with True show ?thesis by auto
  next
    case False
    have "(\<forall>i. \<not> embedded_at i (c # cs)) \<longleftrightarrow> (\<forall>i. \<not> embedded_at i cs)"
    proof
      assume a: "\<forall>i. \<not> embedded_at i (c # cs)"
      show "\<forall>i. \<not> embedded_at i cs"
      proof
        fix i
        from a have "\<not> embedded_at (Suc i) (c # cs)" by blast
        then show "\<not> embedded_at i cs" by (simp add: embedded_at_def)
      qed
    next
      assume a: "\<forall>i. \<not> embedded_at i cs"
      show "\<forall>i. \<not> embedded_at i (c # cs)"
      proof
        fix i
        show "\<not> embedded_at i (c # cs)"
        proof (cases i)
          case 0
          with False show ?thesis by (simp add: embedded_at_def)
        next
          case (Suc j)
          with a show ?thesis by (simp add: embedded_at_def)
        qed
      qed
    qed
    moreover from False have "re_search_https (c # cs) = map_option Suc (re_search_https cs)"
      by (simp only: re_search_https.simps if_False)
    ultimately show ?thesis using Cons by simp
  qed
qed

lemma re_search_https_Some:
  "re_search_https s = Some i \<Longrightarrow> embedded_at i s \<and> (\<forall>j<i. \<not> embedded_at j s)"
proof (induction s arbitrary: i)
  case Nil
  then show ?case by simp
next
  case (Cons c cs)
  show ?case
  proof (cases "prefix ''http:'' (c # cs) \<or> prefix ''https:'' (c # cs)")
    case True
    then have eq: "re_search_https (c # cs) = Some 0"
      by (simp only: re_search_https.simps if_True)
    from Cons.prems have "i = 0" unfolding eq by simp
    with True show ?thesis by (simp add: embedded_at_def)
  next
    case False
    then have eq: "re_search_https (c # cs) = map_option Suc (re_search_https cs)"
      by (simp only: re_search_https.simps if_False)
    from Cons.prems have "map_option Suc (re_search_https cs) = Some i"
      unfolding eq .
    then obtain k where k: "re_search_https cs = Some k" "i = Suc k"
      by auto
    from Cons.IH [OF k(1)] have ih: "embedded_at k cs" "\<forall>j<k. \<not> embedded_at j cs"
      by simp_all
    have "embedded_at i (c # cs)" using ih(1) k(2) by (simp add: embedded_at_def)
    moreover have "\<forall>j<i. \<not> embedded_at j (c # cs)"
    proof (intro allI impI)
      fix j assume "j < i"
      show "\<not> embedded_at j (c # cs)"
      proof (cases j)
        case 0
        with False show ?thesis by (simp add: embedded_at_def)
      next
        case (Suc m)
        with \<open>j < i\<close> k(2) have "m < k" by simp
        with ih(2) Suc show ?thesis by (simp add: embedded_at_def)
      qed
    qed
    ultimately show ?thesis by simp
  qed
qed

lemma first_embedded_unique:
  assumes "embedded_at i s" "\<forall>j<i. \<not> embedded_at j s"
      and "embedded_at k s" "\<forall>j<k. \<not> embedded_at j s"
  shows "i = k"
  using assms by (meson linorder_neqE_nat)

lemma quoted_not_op: "dquote @ s @ dquote \<notin> {''OR'', ''AND'', ''NOT''}"
  by (simp add: dquote_def)

lemma ops_not_keyword:
  "s \<in> {''OR'', ''AND'', ''NOT''} \<Longrightarrow> lower s \<notin> {''map'', ''news''}"
  by (auto simp: lower_ops)

lemma throttle_sleeps_delta:
  "0 < clock w - last_visited w key \<Longrightarrow> clock w - last_visited w key < limit \<Longrightarrow>
   throttle key limit w = sleep (clock w - last_visited w key) w"
  by (simp add: throttle_def Let_def)

lemma getitem_field_of:
  "getitem v k = (case field_of k v of
                    Some x \<Rightarrow> Inr x
                  | None \<Rightarrow> Inl (case v of JObj kvs \<Rightarrow> KeyError | _ \<Rightarrow> TypeError))"
  by (cases v) (simp_all split: option.splits)

lemma replace_http_text:
  "replace_http v = (case v of JStr s \<Rightarrow> Inr (str_replace ''http:'' ''https:'' s)
                     | _ \<Rightarrow> Inl AttributeError)"
  by (cases v) simp_all

lemma closest_snapshot_snapshot_of:
  "(case closest_snapshot data of Inr (Some u) \<Rightarrow> Some u | _ \<Rightarrow> None) =
   map_option (str_replace ''http:'' ''https:'') (snapshot_of data)"
  unfolding closest_snapshot_def snapshot_of_def getitem_field_of replace_http_text
  by (simp split: option.splits json.splits)

lemma not_prefix_http_append:
  assumes "\<not> prefix ''http:'' x" "x \<noteq> []"
  shows "\<not> prefix ''http:'' (x @ ''http:'' @ rest)"
proof (cases x)
  case Nil with assms show ?thesis by simp
next
  case c1: (Cons a1 x1)
  show ?thesis
  proof (cases x1)
    case Nil with c1 show ?thesis by simp
  next
    case c2: (Cons a2 x2)
    show ?thesis
    proof (cases x2)
      case Nil with c1 c2 show ?thesis by simp
    next
      case c3: (Cons a3 x3)
      show ?thesis
      proof (cases x3)
        case Nil with c1 c2 c3 show ?thesis by simp
      next
        case c4: (Cons a4 x4)
        show ?thesis
        proof (cases x4)
          case Nil with c1 c2 c3 c4 show ?thesis by simp
        next
          case (Cons a5 x5)
          with c1 c2 c3 c4 assms show ?thesis by simp
        qed
      qed
    qed
  qed
qed

lemma str_replace_no_occurrence:
  "\<not> occurs_in ''http:'' x \<Longrightarrow> str_replace ''http:'' ''https:'' x = x"
  by (induction x) (simp_all del: prefix_code)

lemma str_replace_http_append:
  "\<not> occurs_in ''http:'' x \<Longrightarrow>
   str_replace ''http:'' ''https:'' (x @ ''http:'' @ rest) =
   x @ ''https:'' @ str_replace ''http:'' ''https:'' rest"
proof (induction x)
  case Nil
  show ?case by simp
next
  case (Cons c cs)
  have "occurs_in ''http:'' (c # cs) = (prefix ''http:'' (c # cs) \<or> occurs_in ''http:'' cs)"
    by (rule occurs_in.simps)
  with Cons.prems have np: "\<not> prefix ''http:'' (c # cs)" and no: "\<not> occurs_in ''http:'' cs"
    by blast+
  from not_prefix_http_append [OF np, of rest]
  have "\<not> prefix ''http:'' ((c # cs) @ ''http:'' @ rest)" by simp
  then have "str_replace ''http:'' ''https:'' ((c # cs) @ ''http:'' @ rest) =
             c # str_replace ''http:'' ''https:'' (cs @ ''http:'' @ rest)"
    by (simp only: append_Cons str_replace.simps) simp
  with Cons.IH [OF no] show ?case by simp
qed

lemma str_replace_join:
  "\<forall>p\<in>set ps. \<not> occurs_in ''http:'' p \<Longrightarrow>
   str_replace ''http:'' ''https:'' (str_join ''http:'' ps) = str_join ''https:'' ps"
proof (induction "''http:''" ps rule: str_join.induct)
  case 1
  show ?case by simp
next
  case (2 x)
  then show ?case by (simp add: str_replace_no_occurrence)
next
  case (3 x y ys)
  then have "str_replace ''http:'' ''https:'' (str_join ''http:'' (y # ys)) =
             str_join ''https:'' (y # ys)" by simp
  moreover from 3 have "\<not> occurs_in ''http:'' x" by simp
  ultimately show ?case
    using str_replace_http_append [of x "str_join ''http:'' (y # ys)"] by simp
qed



lemma bing_extract_empty_page:
  \<open>xpath D doc ''//*[@id="b_results"]/li[@class="b_algo"]'' = [] \<Longrightarrow>
   bing_extract L D q doc url w =
     (Inr ([], url),
      prints [''Failed to find any results on results page, with title:'',
              str_join '' '' (xpath_text D doc ''//title/text()'')] w)\<close>
  by (simp add: bing_extract_def)

lemma google_parse_results_empty_page:
  \<open>google_extract_cache_urls L raw = Inr m \<Longrightarrow>
   xpath D doc ''//*[@id="search"]//*[@id="rso"]//div[descendant::h3]'' = [] \<Longrightarrow>
   google_parse_results L D doc raw w =
     (Inr [],
      prints [''Failed to find any results on results page, with title:'',
              str_join '' '' (xpath_text D doc ''//title/text()'')] w)\<close>
  by (simp add: google_parse_results_def)

lemma google_results_never_raises:
  "\<exists>found w'. google_results L D m blocks ans w = (Inr found, w')"
proof (induction blocks arbitrary: ans w)
  case Nil
  show ?case by simp
next
  case (Cons b bs)
  show ?case
    by (simp add: Let_def Cons.IH split: list.splits option.splits)
qed






section \<open>The claims\<close>

text \<open>
  C1, at a concrete input.  Two fetches with the key \<open>k\<close> and a minimum interval of one
  second are issued one after the other, the second a quarter of a second after the first
  ended (at clock 100).  \<open>query\<close> sleeps for \<open>delta\<close>, a quarter of a second, not for the
  remaining three quarters, and the second fetch starts at clock 100.5, half a second after
  the end of the first.
\<close>

theorem query_sleeps_delta_not_remainder:
  "slept (snd (query plain_lib \<lparr>open_novisit = probe 0 (Inr ''page'')\<rparr> ''u'' ''k'' None 1 Inr 60
                 None None
             (idle (1 / 4)
               (snd (query plain_lib \<lparr>open_novisit = probe 0 (Inr ''page'')\<rparr> ''u'' ''k'' None 1 Inr
                       60 None None world0))))) = [1 / 4] \<and>
   requests (snd (query plain_lib \<lparr>open_novisit = probe 0 (Inr ''page'')\<rparr> ''u'' ''k'' None 1 Inr 60
                 None None
             (idle (1 / 4)
               (snd (query plain_lib \<lparr>open_novisit = probe 0 (Inr ''page'')\<rparr> ''u'' ''k'' None 1 Inr
                       60 None None world0))))) = [(''u'', 100), (''u'', 100 + 1 / 2)]"
  by (simp add: query_def fetch_raw_def throttle_def sleep_def record_visit_def deliver_def
      probe_def idle_def world0_def plain_lib_def Let_def)

text \<open>
  C2, at a concrete input.  A Bing page holds three result items, and the second has no
  title link (neither \<open>h2/a\<close> nor the link of the \<open>b_algoheader\<close> layout).  \<open>a[0]\<close> on the
  empty selection raises IndexError outside any \<^verbatim>\<open>try\<close>: the search raises, the first item
  is lost and the third is never looked at, where the claim has the item skipped with a log
  line.
\<close>

theorem bing_search_missing_title_link_raises:
  "fst (bing_search plain_lib bing_page \<lparr>open_novisit = probe 0 (Inr ''<html>'')\<rparr>
          [''heroes''] None None 60 world0) = Inl IndexError \<and>
   logged (snd (bing_search plain_lib bing_page \<lparr>open_novisit = probe 0 (Inr ''<html>'')\<rparr>
          [''heroes''] None None 60 world0)) =
     [[''Making bing query: https://www.bing.com/search?q=heroes'']]"
proof -
  have q: "bing_q plain_lib [''heroes''] None = ''heroes''"
    by (simp add: bing_q_def quote_term_def plain_lib_def bing_term_def str_replace_dquote
        strip_quotes_def)
  have f: "query plain_lib \<lparr>open_novisit = probe 0 (Inr ''<html>'')\<rparr>
             ''https://www.bing.com/search?q=heroes'' ''bing'' None 1 (parse_html bing_page) 60
             None None (prints [''Making bing query: https://www.bing.com/search?q=heroes''] world0)
           = (Inr 0, record_visit ''bing''
                (prints [''Making bing query: https://www.bing.com/search?q=heroes'']
                   (world0\<lparr>requests := [(''https://www.bing.com/search?q=heroes'', 100)]\<rparr>)))"
    by (simp add: query_def fetch_raw_def throttle_def deliver_def probe_def prints_def
        world0_def Let_def plain_lib_def bing_page_def table_dom_def record_visit_def)
  have x: \<open>xpath bing_page 0 ''//*[@id="b_results"]/li[@class="b_algo"]'' = [10, 20, 30]\<close>
    \<open>xpath bing_page 10 ''descendant::h2/a[@href]'' = [11]\<close>
    \<open>xpath bing_page 10 ''descendant::div[@class="b_attribution" and @u]'' = [12]\<close>
    \<open>xpath bing_page 20 ''descendant::h2/a[@href]'' = []\<close>
    \<open>xpath bing_page 20 ''descendant::div[@class="b_algoheader"]/a[@href]'' = []\<close>
    by (simp_all add: bing_page_def table_dom_def)
  have g: "get bing_page 12 ''u'' = Some ''0|5058|4871|x''"
    by (simp add: bing_page_def table_dom_def)
  have r: "bing_results plain_lib bing_page ''heroes'' [10, 20, 30] [] w = (Inl IndexError, w)" for w
    by (simp add: x g Let_def)
  have e: "bing_extract plain_lib bing_page ''heroes'' 0 url w = (Inl IndexError, w)" for url w
    unfolding bing_extract_def x(1) r by simp
  have "bing_search plain_lib bing_page \<lparr>open_novisit = probe 0 (Inr ''<html>'')\<rparr>
          [''heroes''] None None 60 world0 =
        (Inl IndexError, record_visit ''bing''
                (prints [''Making bing query: https://www.bing.com/search?q=heroes'']
                   (world0\<lparr>requests := [(''https://www.bing.com/search?q=heroes'', 100)]\<rparr>)))"
    by (simp add: bing_search_def q f e Let_def)
  then show ?thesis
    by (simp add: record_visit_def prints_def world0_def)
qed

text \<open>
  C3, at a concrete input.  A DDG page has no result element and the title
  \<open>Are you a robot?\<close>.  \<open>ddg_search\<close> returns the empty list, and the only line it logs is
  the query it makes: the title is not logged, where the claim has it logged once.
\<close>

theorem ddg_search_empty_page_logs_no_title:
  "xpath_text blocked_page 0 ''//title/text()'' = [''Are you a robot?''] \<and>
   fst (ddg_search plain_lib blocked_page \<lparr>open_novisit = probe 0 (Inr ''<html>'')\<rparr>
          [''heroes''] None False None 60 world0) =
     Inr ([], ''https://duckduckgo.com/html/?q=heroes&kp=-1'') \<and>
   logged (snd (ddg_search plain_lib blocked_page \<lparr>open_novisit = probe 0 (Inr ''<html>'')\<rparr>
          [''heroes''] None False None 60 world0)) =
     [[''Making ddg query: https://duckduckgo.com/html/?q=heroes&kp=-1'']]"
proof -
  have l: "lower ''heroes'' = ''heroes''"
    by (simp add: lower_def chr_lower_def uppers_def lowers_def)
  have u: "ddg_url plain_lib [''heroes''] None False = ''https://duckduckgo.com/html/?q=heroes&kp=-1''"
    by (simp add: ddg_url_def ddg_q_def quote_term_def plain_lib_def ddg_term_def
        str_replace_dquote strip_quotes_def l)
  have f: "query plain_lib \<lparr>open_novisit = probe 0 (Inr ''<html>'')\<rparr>
             ''https://duckduckgo.com/html/?q=heroes&kp=-1'' ''ddg'' None 1
             (parse_html blocked_page) 60 None None
             (prints [''Making ddg query: https://duckduckgo.com/html/?q=heroes&kp=-1''] world0)
           = (Inr 0, record_visit ''ddg''
                (prints [''Making ddg query: https://duckduckgo.com/html/?q=heroes&kp=-1'']
                   (world0\<lparr>requests := [(''https://duckduckgo.com/html/?q=heroes&kp=-1'', 100)]\<rparr>)))"
    by (simp add: query_def fetch_raw_def throttle_def deliver_def probe_def prints_def
        world0_def Let_def plain_lib_def blocked_page_def table_dom_def record_visit_def)
  have x: \<open>xpath blocked_page 0
      ''//*[@class="results"]//*[@class="result__title"]/a[@href and @class="result__a"]'' = []\<close>
    by (simp add: blocked_page_def table_dom_def)
  have e: "ddg_extract plain_lib blocked_page 0 url w = (Inr ([], url), w)" for url w
    by (simp add: ddg_extract_def x)
  have "ddg_search plain_lib blocked_page \<lparr>open_novisit = probe 0 (Inr ''<html>'')\<rparr>
          [''heroes''] None False None 60 world0 =
        (Inr ([], ''https://duckduckgo.com/html/?q=heroes&kp=-1''),
         record_visit ''ddg''
                (prints [''Making ddg query: https://duckduckgo.com/html/?q=heroes&kp=-1'']
                   (world0\<lparr>requests := [(''https://duckduckgo.com/html/?q=heroes&kp=-1'', 100)]\<rparr>)))"
    by (simp add: ddg_search_def u f e Let_def)
  then show ?thesis
    by (simp add: record_visit_def prints_def world0_def blocked_page_def table_dom_def)
qed

text \<open>
  C4.  For every key and every fetch attempt through \<open>query\<close>: when the fetch raises, the
  exception reaches the caller and the key's entry of \<open>last_visited\<close> is the clock at the
  end of the attempt; when the fetch returns, the same entry is written before the raw text
  is dumped, handed over and parsed.
\<close>

theorem query_records_attempt:
  assumes "fetch_raw L br url timeout simple_scraper (throttle key limit w) = (r, w')"
  shows "(\<forall>e. r = Inl e \<longrightarrow>
            fst (query L br url key dump_raw limit parser timeout save_raw simple_scraper w) = Inl e \<and>
            last_visited (snd (query L br url key dump_raw limit parser timeout save_raw
                                 simple_scraper w)) key = clock w' \<and>
            clock (snd (query L br url key dump_raw limit parser timeout save_raw
                          simple_scraper w)) = clock w') \<and>
         (\<forall>raw. r = Inr raw \<longrightarrow>
            query L br url key dump_raw limit parser timeout save_raw simple_scraper w =
              deliver dump_raw save_raw parser raw
                (w'\<lparr>last_visited := (last_visited w')(key := clock w')\<rparr>))"
  using assms by (simp add: query_def record_visit_def)

theorem query_records_attempt_witness:
  "fst (query plain_lib \<lparr>open_novisit = probe 2 (Inl (TransportError ''timed out''))\<rparr>
          ''https://example.com/'' ''k'' None 1 Inr 60 None None world0)
     = Inl (TransportError ''timed out'') \<and>
   last_visited (snd (query plain_lib \<lparr>open_novisit = probe 2 (Inl (TransportError ''timed out''))\<rparr>
          ''https://example.com/'' ''k'' None 1 Inr 60 None None world0)) ''k'' = 102"
proof -
  have f: "fetch_raw plain_lib \<lparr>open_novisit = probe 2 (Inl (TransportError ''timed out''))\<rparr>
             ''https://example.com/'' 60 None (throttle ''k'' 1 world0)
           = (Inl (TransportError ''timed out''),
              world0\<lparr>requests := [(''https://example.com/'', 100)], clock := 102\<rparr>)"
    by (simp add: fetch_raw_def throttle_def probe_def world0_def Let_def)
  show ?thesis
    using query_records_attempt [OF f, where dump_raw = None and parser = Inr and save_raw = None]
    by (simp add: world0_def)
qed

text \<open>
  C5, as stated: every sanitizer maps a term that contains double quotes to that term with
  all double quotes removed.  This fails for the term \<open>O"R\<close>: stripped of its quote it is
  the reserved token \<open>OR\<close>, which the sanitizer then lower-cases.
\<close>

theorem sanitize_term_counterexample:
  "CHR 0x22 \<in> set (''O'' @ dquote @ ''R'') \<and>
   bing_term (''O'' @ dquote @ ''R'') \<noteq> strip_quotes (''O'' @ dquote @ ''R'')"
proof -
  have s: "strip_quotes (''O'' @ dquote @ ''R'') = ''OR''"
    by (simp add: strip_quotes_def dquote_def)
  have "bing_term (''O'' @ dquote @ ''R'') = ''or''"
    unfolding bing_term_def str_replace_dquote s by (simp add: lower_ops)
  with s show ?thesis by (simp add: dquote_def)
qed

text \<open>
  C5, amended.  For every sanitizer and every term: a term equal to \<open>OR\<close>, \<open>AND\<close> or
  \<open>NOT\<close> is mapped to its lower-cased form; otherwise the double quotes are removed first,
  and the stripped term is lower-cased when it is one of the three reserved tokens, is
  wrapped in double quotes by the DDG sanitizer when its lower-cased form is \<open>map\<close> or
  \<open>news\<close>, and is returned as it is in every other case.
\<close>

theorem sanitize_term_amended:
  "(t \<in> {''OR'', ''AND'', ''NOT''} \<longrightarrow>
      ddg_term t = lower t \<and> bing_term t = lower t \<and> google_term t = lower t) \<and>
   (strip_quotes t \<in> {''OR'', ''AND'', ''NOT''} \<longrightarrow>
      ddg_term t = lower (strip_quotes t) \<and> bing_term t = lower (strip_quotes t) \<and>
      google_term t = lower (strip_quotes t)) \<and>
   (strip_quotes t \<notin> {''OR'', ''AND'', ''NOT''} \<longrightarrow>
      bing_term t = strip_quotes t \<and> google_term t = strip_quotes t) \<and>
   (strip_quotes t \<notin> {''OR'', ''AND'', ''NOT''} \<and> lower (strip_quotes t) \<notin> {''map'', ''news''} \<longrightarrow>
      ddg_term t = strip_quotes t) \<and>
   (lower (strip_quotes t) \<in> {''map'', ''news''} \<longrightarrow>
      ddg_term t = dquote @ strip_quotes t @ dquote)"
proof (intro conjI impI)
  assume op: "t \<in> {''OR'', ''AND'', ''NOT''}"
  then have s: "strip_quotes t = t" by (auto simp: strip_quotes_def)
  from op ops_not_keyword [of t] have k: "lower t \<notin> {''map'', ''news''}" by blast
  from op s k show "ddg_term t = lower t"
    by (simp add: ddg_term_def str_replace_dquote Let_def)
  from op s show "bing_term t = lower t"
    by (simp add: bing_term_def str_replace_dquote Let_def)
  from op s show "google_term t = lower t"
    by (simp add: google_term_def str_replace_dquote Let_def)
next
  assume op: "strip_quotes t \<in> {''OR'', ''AND'', ''NOT''}"
  from ops_not_keyword [OF op] have k: "lower (strip_quotes t) \<notin> {''map'', ''news''}" .
  from op k show "ddg_term t = lower (strip_quotes t)"
    by (simp add: ddg_term_def str_replace_dquote Let_def)
  from op show "bing_term t = lower (strip_quotes t)"
    by (simp add: bing_term_def str_replace_dquote Let_def)
  from op show "google_term t = lower (strip_quotes t)"
    by (simp add: google_term_def str_replace_dquote Let_def)
next
  assume nop: "strip_quotes t \<notin> {''OR'', ''AND'', ''NOT''}"
  then show "bing_term t = strip_quotes t"
    by (simp add: bing_term_def str_replace_dquote Let_def)
  from nop show "google_term t = strip_quotes t"
    by (simp add: google_term_def str_replace_dquote Let_def)
next
  assume "strip_quotes t \<notin> {''OR'', ''AND'', ''NOT''} \<and> lower (strip_quotes t) \<notin> {''map'', ''news''}"
  then show "ddg_term t = strip_quotes t"
    by (simp add: ddg_term_def str_replace_dquote Let_def)
next
  assume k: "lower (strip_quotes t) \<in> {''map'', ''news''}"
  have "ddg_term t = (let t2 = dquote @ strip_quotes t @ dquote
                      in if t2 \<in> {''OR'', ''AND'', ''NOT''} then lower t2 else t2)"
    using k by (simp add: ddg_term_def str_replace_dquote Let_def)
  also have "\<dots> = dquote @ strip_quotes t @ dquote"
    using quoted_not_op [of "strip_quotes t"] by (simp add: Let_def)
  finally show "ddg_term t = dquote @ strip_quotes t @ dquote" .
qed

theorem sanitize_term_amended_witness:
  "ddg_term ''OR'' = ''or'' \<and> bing_term ''AND'' = ''and'' \<and> google_term ''NOT'' = ''not'' \<and>
   bing_term (''O'' @ dquote @ ''R'') = ''or'' \<and>
   bing_term (''a'' @ dquote @ ''b'' @ dquote) = ''ab'' \<and>
   google_term (''a'' @ dquote @ ''b'' @ dquote) = ''ab'' \<and>
   ddg_term (''a'' @ dquote @ ''b'' @ dquote) = ''ab'' \<and>
   ddg_term (dquote @ ''News'') = dquote @ ''News'' @ dquote"
proof -
  have l: "lower ''ab'' = ''ab''" "lower ''News'' = ''news''"
    by (simp_all add: lower_def chr_lower_def uppers_def lowers_def)
  have s: "strip_quotes (''O'' @ dquote @ ''R'') = ''OR''"
    "strip_quotes (''a'' @ dquote @ ''b'' @ dquote) = ''ab''"
    "strip_quotes (dquote @ ''News'') = ''News''"
    by (simp_all add: strip_quotes_def dquote_def)
  show ?thesis
    using sanitize_term_amended [of "''OR''"] sanitize_term_amended [of "''AND''"]
      sanitize_term_amended [of "''NOT''"]
      sanitize_term_amended [of "''O'' @ dquote @ ''R''"]
      sanitize_term_amended [of "''a'' @ dquote @ ''b'' @ dquote"]
      sanitize_term_amended [of "dquote @ ''News''"]
    by (simp add: l s lower_ops strip_quotes_def dquote_def)
qed



text \<open>
  C7, as stated: the lookup returns the snapshot URL when the response holds
  \<open>archived_snapshots.closest\<close> with \<open>available\<close> set to true, and otherwise, wrong types
  included, returns nothing and logs the response.  This fails for a response whose
  \<open>available\<close> is the text \<open>"false"\<close>: it is not the value true, yet Python counts a
  non-empty text as true, and the lookup returns the URL and logs nothing.
\<close>

theorem wayback_lookup_counterexample:
  "json_loads wayback_lib raw_available_text =
     Inr (wayback_reply (JStr ''false'') ''http://web.archive.org/abc'') \<and>
   \<not> marked_available (wayback_reply (JStr ''false'') ''http://web.archive.org/abc'') \<and>
   fst (wayback_machine_cached_url wayback_lib
          \<lparr>open_novisit = probe 0 (Inr raw_available_text)\<rparr> ''example.com'' 60 world0)
     = Inr (Some ''https://web.archive.org/abc'') \<and>
   logged (snd (wayback_machine_cached_url wayback_lib
          \<lparr>open_novisit = probe 0 (Inr raw_available_text)\<rparr> ''example.com'' 60 world0))
     = []"
proof -
  have j: "json_loads wayback_lib raw_available_text =
     Inr (wayback_reply (JStr ''false'') ''http://web.archive.org/abc'')"
    by (simp add: wayback_lib_def table_lib_def raw_available_text_def raw_available_def
        raw_unavailable_def)
  have m: "\<not> marked_available (wayback_reply (JStr ''false'') ''http://web.archive.org/abc'')"
    by (simp add: marked_available_def wayback_reply_def)
  have x: "xml_to_unicode wayback_lib = id"
    by (simp add: wayback_lib_def table_lib_def plain_lib_def)
  have q: "wayback_query wayback_lib \<lparr>open_novisit = probe 0 (Inr raw_available_text)\<rparr>
             ''example.com'' 60 world0 =
           (Inr (wayback_reply (JStr ''false'') ''http://web.archive.org/abc''),
            record_visit ''wayback''
              (world0\<lparr>requests :=
                 [(''https://archive.org/wayback/available?url='' @
                   quote_term wayback_lib ''example.com'', 100)]\<rparr>))"
    by (simp add: wayback_query_def query_def fetch_raw_def throttle_def deliver_def probe_def
        world0_def Let_def j x)
  have c: "closest_snapshot (wayback_reply (JStr ''false'') ''http://web.archive.org/abc'') =
           Inr (Some ''https://web.archive.org/abc'')"
    by (simp add: closest_snapshot_def wayback_reply_def)
  have "wayback_machine_cached_url wayback_lib
          \<lparr>open_novisit = probe 0 (Inr raw_available_text)\<rparr> ''example.com'' 60 world0
        = (Inr (Some ''https://web.archive.org/abc''),
           record_visit ''wayback''
              (world0\<lparr>requests :=
                 [(''https://archive.org/wayback/available?url='' @
                   quote_term wayback_lib ''example.com'', 100)]\<rparr>))"
    by (simp add: wayback_machine_cached_url_def q c)
  then show ?thesis
    by (simp add: j m record_visit_def world0_def)
qed

text \<open>
  C7, amended.  For every JSON response to the availability lookup: if
  \<open>archived_snapshots.closest\<close> is an object whose \<open>available\<close> member is true for Python
  (true, a number other than zero, a non-empty text, list or object) and whose \<open>url\<close>
  member is text, the lookup returns that URL with every \<open>http:\<close> replaced by \<open>https:\<close> and
  logs nothing; otherwise (a missing key, a value on the path that is not an object, a
  \<open>url\<close> that is not text, an \<open>available\<close> that is false for Python) it returns nothing
  and logs the pretty-printed response once.  It does not raise in either case.
\<close>

theorem wayback_lookup_amended:
  assumes "wayback_query L br url timeout w = (Inr data, w')"
  shows "wayback_machine_cached_url L br url timeout w =
           (case snapshot_of data of
              Some u \<Rightarrow> (Inr (Some (str_replace ''http:'' ''https:'' u)), w')
            | None \<Rightarrow>
                (Inr None, prints [''Response from wayback machine:'', pformat L data] w'))"
proof (cases "closest_snapshot data")
  case (Inl e)
  with closest_snapshot_snapshot_of [of data] have "snapshot_of data = None" by simp
  with Inl assms show ?thesis by (simp add: wayback_machine_cached_url_def)
next
  case (Inr r)
  show ?thesis
  proof (cases r)
    case None
    with Inr closest_snapshot_snapshot_of [of data] have "snapshot_of data = None" by simp
    with Inr None assms show ?thesis by (simp add: wayback_machine_cached_url_def)
  next
    case (Some u')
    with Inr closest_snapshot_snapshot_of [of data]
    obtain u where "snapshot_of data = Some u" "u' = str_replace ''http:'' ''https:'' u"
      by (cases "snapshot_of data") auto
    with Inr Some assms show ?thesis by (simp add: wayback_machine_cached_url_def)
  qed
qed

theorem wayback_lookup_amended_witness:
  "wayback_machine_cached_url wayback_lib \<lparr>open_novisit = probe 0 (Inr raw_available)\<rparr>
     ''example.com'' 60 world0 =
     (Inr (Some ''https://web.archive.org/abc''),
      record_visit ''wayback''
        (world0\<lparr>requests :=
           [(''https://archive.org/wayback/available?url=example.com'', 100)]\<rparr>)) \<and>
   wayback_machine_cached_url wayback_lib \<lparr>open_novisit = probe 0 (Inr raw_unavailable)\<rparr>
     ''example.com'' 60 world0 =
     (Inr None,
      prints [''Response from wayback machine:'', raw_unavailable]
        (record_visit ''wayback''
          (world0\<lparr>requests :=
             [(''https://archive.org/wayback/available?url=example.com'', 100)]\<rparr>)))"
proof -
  have x: "xml_to_unicode wayback_lib = id" "quote_term wayback_lib = id"
    by (simp_all add: wayback_lib_def table_lib_def plain_lib_def quote_term_def fun_eq_iff)
  have j: "json_loads wayback_lib raw_available =
             Inr (wayback_reply (JBool True) ''http://web.archive.org/abc'')"
          "json_loads wayback_lib raw_unavailable =
             Inr (wayback_reply (JBool False) ''http://web.archive.org/abc'')"
    by (simp_all add: wayback_lib_def table_lib_def raw_available_def raw_unavailable_def)
  have p: "pformat wayback_lib (wayback_reply (JBool False) ''http://web.archive.org/abc'') =
             raw_unavailable"
    by (simp add: wayback_lib_def table_lib_def wayback_reply_def)
  have q1: "wayback_query wayback_lib \<lparr>open_novisit = probe 0 (Inr raw_available)\<rparr>
             ''example.com'' 60 world0 =
           (Inr (wayback_reply (JBool True) ''http://web.archive.org/abc''),
            record_visit ''wayback''
              (world0\<lparr>requests :=
                 [(''https://archive.org/wayback/available?url=example.com'', 100)]\<rparr>))"
    by (simp add: wayback_query_def query_def fetch_raw_def throttle_def deliver_def probe_def
        world0_def Let_def j x)
  have q2: "wayback_query wayback_lib \<lparr>open_novisit = probe 0 (Inr raw_unavailable)\<rparr>
             ''example.com'' 60 world0 =
           (Inr (wayback_reply (JBool False) ''http://web.archive.org/abc''),
            record_visit ''wayback''
              (world0\<lparr>requests :=
                 [(''https://archive.org/wayback/available?url=example.com'', 100)]\<rparr>))"
    by (simp add: wayback_query_def query_def fetch_raw_def throttle_def deliver_def probe_def
        world0_def Let_def j x)
  have s: "snapshot_of (wayback_reply (JBool True) ''http://web.archive.org/abc'') =
             Some ''http://web.archive.org/abc''"
          "snapshot_of (wayback_reply (JBool False) ''http://web.archive.org/abc'') = None"
    by (simp_all add: snapshot_of_def wayback_reply_def)
  show ?thesis
    using wayback_lookup_amended [OF q1] wayback_lookup_amended [OF q2]
    by (simp add: s p)
qed

text \<open>
  C8.  \<open>resolve_url\<close> dispatches on the prefix before the first colon.  For every input
  whose prefix is neither \<open>bing\<close> nor \<open>wayback\<close>, the input is returned unchanged.  For an
  input tagged \<open>wayback\<close> whose remainder starts with \<open>/\<close>: when the remainder holds an
  embedded \<open>http:\<close> or \<open>https:\<close>, the suffix of the remainder from the first such
  occurrence is returned; when it holds none, the remainder is returned behind the fixed
  host \<open>https://web.archive.org\<close>.
\<close>

theorem resolve_url_dispatch:
  "(tag_of url \<notin> {''bing'', ''wayback''} \<longrightarrow> resolve_url url = url) \<and>
   (prefix ''/'' rest \<longrightarrow>
      (\<forall>i. embedded_at i rest \<and> (\<forall>j<i. \<not> embedded_at j rest) \<longrightarrow>
           resolve_url (''wayback:'' @ rest) = drop i rest) \<and>
      ((\<forall>i. \<not> embedded_at i rest) \<longrightarrow>
           resolve_url (''wayback:'' @ rest) = ''https://web.archive.org'' @ rest))"
proof (intro conjI impI allI)
  assume "tag_of url \<notin> {''bing'', ''wayback''}"
  then have "fst (str_partition '':'' url) \<noteq> ''bing''"
    and "fst (str_partition '':'' url) \<noteq> ''wayback''"
    by (simp_all add: str_partition_tag)
  then show "resolve_url url = url"
    by (cases "str_partition '':'' url") (simp add: resolve_url_def)
next
  fix i
  assume sl: "prefix ''/'' rest"
    and emb: "embedded_at i rest \<and> (\<forall>j<i. \<not> embedded_at j rest)"
  have r: "resolve_url (''wayback:'' @ rest) = wayback_url_processor rest"
    unfolding resolve_url_def str_partition_wayback by simp
  from emb have "re_search_https rest \<noteq> None"
    by (auto simp: re_search_https_None)
  then obtain k where k: "re_search_https rest = Some k" by auto
  from re_search_https_Some [OF k] emb have "k = i"
    by (intro first_embedded_unique [of k rest i]) simp_all
  with k sl r show "resolve_url (''wayback:'' @ rest) = drop i rest"
    by (simp add: wayback_url_processor_def)
next
  assume sl: "prefix ''/'' rest" and none: "\<forall>i. \<not> embedded_at i rest"
  have r: "resolve_url (''wayback:'' @ rest) = wayback_url_processor rest"
    unfolding resolve_url_def str_partition_wayback by simp
  from none have "re_search_https rest = None"
    by (simp add: re_search_https_None)
  with sl r show "resolve_url (''wayback:'' @ rest) = ''https://web.archive.org'' @ rest"
    by (simp add: wayback_url_processor_def)
qed

theorem resolve_url_dispatch_witness:
  "tag_of ''plainscheme:/some/path'' \<notin> {''bing'', ''wayback''} \<and>
   resolve_url ''plainscheme:/some/path'' = ''plainscheme:/some/path'' \<and>
   prefix ''/'' ''/w/http://example.com'' \<and> embedded_at 3 ''/w/http://example.com'' \<and>
   resolve_url ''wayback:/w/http://example.com'' = ''http://example.com'' \<and>
   prefix ''/'' ''/web/x'' \<and>
   resolve_url ''wayback:/web/x'' = ''https://web.archive.org/web/x''"
proof -
  have t: "tag_of ''plainscheme:/some/path'' \<notin> {''bing'', ''wayback''}"
    by (simp add: tag_of_def)
  have e: "embedded_at 3 ''/w/http://example.com''"
    by (simp add: embedded_at_def)
  have f: "\<forall>j<3. \<not> embedded_at j ''/w/http://example.com''"
    by (simp add: embedded_at_def numeral_3_eq_3 less_Suc_eq)
  have n: "\<forall>i. \<not> embedded_at i ''/web/x''"
    by (simp add: re_search_https_None [symmetric])
  show ?thesis
    using t e f n
      resolve_url_dispatch [of "''plainscheme:/some/path''" "''/w/http://example.com''"]
      resolve_url_dispatch [of "''x''" "''/web/x''"]
    by simp
qed



text \<open>
  C10.  The lookup replaces every occurrence of \<open>http:\<close> in the snapshot URL, not only the
  leading scheme: when the URL of the snapshot is made of pieces free of \<open>http:\<close> that are
  joined by \<open>http:\<close>, the URL returned is the same pieces joined by \<open>https:\<close>.
\<close>

theorem wayback_replaces_every_http:
  assumes "wayback_query L br url timeout w = (Inr data, w')"
    and "snapshot_of data = Some (str_join ''http:'' ps)"
    and "\<forall>p\<in>set ps. \<not> occurs_in ''http:'' p"
  shows "wayback_machine_cached_url L br url timeout w =
           (Inr (Some (str_join ''https:'' ps)), w')"
proof -
  from assms(1) have "closest_snapshot data = Inr (Some (str_join ''https:'' ps)) \<Longrightarrow> ?thesis"
    by (simp add: wayback_machine_cached_url_def)
  moreover have "closest_snapshot data = Inr (Some (str_join ''https:'' ps))"
  proof -
    from closest_snapshot_snapshot_of [of data] assms(2)
    have "(case closest_snapshot data of Inr (Some u) \<Rightarrow> Some u | _ \<Rightarrow> None) =
          Some (str_replace ''http:'' ''https:'' (str_join ''http:'' ps))" by simp
    then have "closest_snapshot data =
               Inr (Some (str_replace ''http:'' ''https:'' (str_join ''http:'' ps)))"
      by (auto split: sum.splits option.splits)
    with str_replace_join [OF assms(3)] show ?thesis by simp
  qed
  ultimately show ?thesis .
qed

theorem wayback_replaces_every_http_witness:
  "\<not> occurs_in ''http:'' [] \<and> \<not> occurs_in ''http:'' ''//web.archive.org/web/2020/'' \<and>
   \<not> occurs_in ''http:'' ''//example.com'' \<and>
   str_join ''http:'' [[], ''//web.archive.org/web/2020/'', ''//example.com'']
     = ''http://web.archive.org/web/2020/http://example.com'' \<and>
   fst (wayback_machine_cached_url wayback_lib \<lparr>open_novisit = probe 0 (Inr raw_embedded)\<rparr>
     ''example.com'' 60 world0) =
     Inr (Some ''https://web.archive.org/web/2020/https://example.com'')"
proof -
  have x: "xml_to_unicode wayback_lib = id" "quote_term wayback_lib = id"
    by (simp_all add: wayback_lib_def table_lib_def plain_lib_def quote_term_def fun_eq_iff)
  have j: "json_loads wayback_lib raw_embedded =
             Inr (wayback_reply (JBool True) ''http://web.archive.org/web/2020/http://example.com'')"
    by (simp add: wayback_lib_def table_lib_def raw_available_def raw_unavailable_def
        raw_available_text_def raw_embedded_def)
  have q: "wayback_query wayback_lib \<lparr>open_novisit = probe 0 (Inr raw_embedded)\<rparr>
             ''example.com'' 60 world0 =
           (Inr (wayback_reply (JBool True) ''http://web.archive.org/web/2020/http://example.com''),
            record_visit ''wayback''
              (world0\<lparr>requests :=
                 [(''https://archive.org/wayback/available?url=example.com'', 100)]\<rparr>))"
    by (simp add: wayback_query_def query_def fetch_raw_def throttle_def deliver_def probe_def
        world0_def Let_def j x)
  have s: "snapshot_of (wayback_reply (JBool True) ''http://web.archive.org/web/2020/http://example.com'')
           = Some (str_join ''http:'' [[], ''//web.archive.org/web/2020/'', ''//example.com''])"
    by (simp add: snapshot_of_def wayback_reply_def)
  have o: "\<forall>p\<in>set [[], ''//web.archive.org/web/2020/'', ''//example.com'']. \<not> occurs_in ''http:'' p"
    by simp
  show ?thesis
    using wayback_replaces_every_http [OF q s o] o by simp
qed

end
